theory Spec2Isabelle
  imports Main "HOL-Library.Sublist"
begin

section \<open>Python strings\<close>

text \<open>
  A Python \<open>str\<close> is a sequence of Unicode code points and \<open>len\<close> counts code points,
  so a string is modelled as a list of code points. ASCII literals of the source are
  written \<open>py ''...''\<close>; the few other characters are given by their code point.
\<close>

type_synonym pystr = "nat list"

definition py :: "string \<Rightarrow> pystr" where
  "py s = map of_char s"

text \<open>The characters \<open>str.isspace\<close> accepts: what \<open>strip()\<close> and \<open>split()\<close> remove.\<close>

definition is_space :: "nat \<Rightarrow> bool" where
  "is_space c \<longleftrightarrow>
     (9 \<le> c \<and> c \<le> 13) \<or> (28 \<le> c \<and> c \<le> 32) \<or> c = 133 \<or> c = 160 \<or> c = 5760 \<or>
     (8192 \<le> c \<and> c \<le> 8202) \<or> c = 8232 \<or> c = 8233 \<or> c = 8239 \<or> c = 8287 \<or> c = 12288"

text \<open>\<open>s.strip()\<close>\<close>

definition strip :: "pystr \<Rightarrow> pystr" where
  "strip s = rev (dropWhile is_space (rev (dropWhile is_space s)))"

text \<open>\<open>s.startswith(p)\<close>\<close>

definition startswith :: "pystr \<Rightarrow> pystr \<Rightarrow> bool" where
  "startswith s p \<longleftrightarrow> prefix p s"

text \<open>\<open>s.split()\<close>: the maximal runs of non-whitespace characters, in order.\<close>

fun split_acc :: "pystr \<Rightarrow> pystr \<Rightarrow> pystr list" where
  "split_acc w [] = (if w = [] then [] else [w])"
| "split_acc w (c # cs) =
     (if is_space c then (if w = [] then split_acc [] cs else w # split_acc [] cs)
      else split_acc (w @ [c]) cs)"

definition split_ws :: "pystr \<Rightarrow> pystr list" where
  "split_ws s = split_acc [] s"

text \<open>\<open>sep.join(parts)\<close>\<close>

fun join :: "pystr \<Rightarrow> pystr list \<Rightarrow> pystr" where
  "join sep [] = []"
| "join sep [x] = x"
| "join sep (x # y # ys) = x @ sep @ join sep (y # ys)"

text \<open>
  \<open>s.replace('. ', '.\n')\<close>: the occurrences of full stop, space (46, 32) are replaced
  from left to right by full stop, newline (46, 10).
\<close>

fun replace_dot_space :: "pystr \<Rightarrow> pystr" where
  "replace_dot_space (a # b # cs) =
     (if a = 46 \<and> b = 32 then 46 # 10 # replace_dot_space cs
      else a # replace_dot_space (b # cs))"
| "replace_dot_space cs = cs"

text \<open>\<open>str(n)\<close> for a natural number: its decimal digits.\<close>

function str_nat :: "nat \<Rightarrow> pystr" where
  "str_nat n = (if n < 10 then [48 + n] else str_nat (n div 10) @ [48 + n mod 10])"
  by pat_completeness auto
termination
  by (relation "measure id") auto

declare str_nat.simps [simp del]

section \<open>The parsed page\<close>

text \<open>
  The HTML parser is an external library: the model starts from the tree it returns.
  A node is a string of the page's text, a string that is not text (a comment, a
  doctype or another declaration), or a tag with its name, its attributes and its
  children; the \<open>BeautifulSoup\<close> object is the list of the top-level nodes.
\<close>

datatype node =
  Text pystr
| Comment pystr
| Elem pystr "(pystr \<times> pystr) list" "node list"

type_synonym soup = "node list"

definition unwanted :: "pystr list" where
  "unwanted = [py ''script'', py ''style'', py ''nav'', py ''footer'', py ''header'']"

text \<open>
  \<open>for element in soup(["script", "style", "nav", "footer", "header"]): element.decompose()\<close>:
  every tag with one of these names is taken out of the tree, with all it contains.
\<close>

fun decompose_unwanted :: "node list \<Rightarrow> node list" where
  "decompose_unwanted [] = []"
| "decompose_unwanted (Text s # ns) = Text s # decompose_unwanted ns"
| "decompose_unwanted (Comment s # ns) = Comment s # decompose_unwanted ns"
| "decompose_unwanted (Elem n a cs # ns) =
     (if n \<in> set unwanted then decompose_unwanted ns
      else Elem n a (decompose_unwanted cs) # decompose_unwanted ns)"

text \<open>\<open>soup.find_all(names)\<close>: the tags with one of the names, in document order.\<close>

fun find_all :: "pystr list \<Rightarrow> node list \<Rightarrow> node list" where
  "find_all names [] = []"
| "find_all names (Text s # ns) = find_all names ns"
| "find_all names (Comment s # ns) = find_all names ns"
| "find_all names (Elem n a cs # ns) =
     (if n \<in> set names then [Elem n a cs] else []) @ find_all names cs @ find_all names ns"

text \<open>\<open>soup.title\<close>: the first tag named title, or \<open>None\<close>.\<close>

definition soup_title :: "node list \<Rightarrow> node option" where
  "soup_title sp = (case find_all [py ''title''] sp of [] \<Rightarrow> None | t # ts \<Rightarrow> Some t)"

text \<open>
  \<open>tag.string\<close>: the string of a tag whose only child is a string (a comment is one
  too), or whose only child is a tag that has a \<open>string\<close>; \<open>None\<close> otherwise.
\<close>

fun tag_string :: "node \<Rightarrow> pystr option" where
  "tag_string (Text s) = Some s"
| "tag_string (Comment s) = Some s"
| "tag_string (Elem n a [c]) = tag_string c"
| "tag_string (Elem n a cs) = None"

text \<open>
  The strings below a node that \<open>get_text\<close> takes, in document order: the text, and
  not the comments.
\<close>

fun strings :: "node \<Rightarrow> pystr list" where
  "strings (Text s) = [s]"
| "strings (Comment s) = []"
| "strings (Elem n a cs) = concat (map strings cs)"

text \<open>
  \<open>tag.get_text(strip=True)\<close>: every string below the tag is stripped, the empty ones
  are dropped, and the rest are concatenated without a separator.
\<close>

definition get_text_strip :: "node \<Rightarrow> pystr" where
  "get_text_strip t = concat (filter (\<lambda>s. s \<noteq> []) (map strip (strings t)))"

text \<open>\<open>tag.get(key)\<close>\<close>

fun tag_get :: "node \<Rightarrow> pystr \<Rightarrow> pystr option" where
  "tag_get (Text s) k = None"
| "tag_get (Comment s) k = None"
| "tag_get (Elem n a cs) k = map_of a k"

section \<open>scrape\_website\<close>

record scrape_result =
  success :: bool
  message :: pystr
  content :: pystr

text \<open>What \<open>requests.get\<close> can raise or return.\<close>

datatype exn = Timeout | ConnectionError | HTTPError pystr | OtherException pystr

record response =
  status_code :: nat
  reason :: pystr
  resp_url :: pystr
  body :: pystr

text \<open>
  \<open>response.raise_for_status()\<close> of the requests library: the text of the error is
  built for the statuses 400 to 599, and an \<open>HTTPError\<close> is raised when there is one.
\<close>

definition http_error_msg :: "response \<Rightarrow> pystr" where
  "http_error_msg r =
     (if 400 \<le> status_code r \<and> status_code r < 500 then
        str_nat (status_code r) @ py '' Client Error: '' @ reason r @
        py '' for url: '' @ resp_url r
      else if 500 \<le> status_code r \<and> status_code r < 600 then
        str_nat (status_code r) @ py '' Server Error: '' @ reason r @
        py '' for url: '' @ resp_url r
      else [])"

definition raise_for_status :: "response \<Rightarrow> exn option" where
  "raise_for_status r =
     (if http_error_msg r \<noteq> [] then Some (HTTPError (http_error_msg r)) else None)"

text \<open>\<open>str(e)\<close> of an exception that carries a message.\<close>

fun str_exn :: "exn \<Rightarrow> pystr" where
  "str_exn (HTTPError m) = m"
| "str_exn (OtherException m) = m"
| "str_exn Timeout = []"
| "str_exn ConnectionError = []"

text \<open>Add https:// if missing.\<close>

definition normalize_url :: "pystr \<Rightarrow> pystr" where
  "normalize_url url = (if \<not> startswith url (py ''http'') then py ''https://'' @ url else url)"

text \<open>Get title.\<close>

definition title_part :: "soup \<Rightarrow> pystr list" where
  "title_part sp =
     (case soup_title sp of
        None \<Rightarrow> []
      | Some t \<Rightarrow>
          (case tag_string t of
             None \<Rightarrow> []
           | Some s \<Rightarrow> if s \<noteq> [] then [py ''TITLE: '' @ strip s] else []))"

text \<open>Get meta description: the loop over the meta tags, left at the first match.\<close>

fun meta_loop :: "node list \<Rightarrow> pystr list" where
  "meta_loop [] = []"
| "meta_loop (m # ms) =
     (if tag_get m (py ''name'') = Some (py ''description'') then
        (case tag_get m (py ''content'') of
           None \<Rightarrow> meta_loop ms
         | Some c \<Rightarrow> if c \<noteq> [] then [py ''DESCRIPTION: '' @ strip c] else meta_loop ms)
      else meta_loop ms)"

definition meta_part :: "soup \<Rightarrow> pystr list" where
  "meta_part sp = meta_loop (find_all [py ''meta''] sp)"

text \<open>Get headings, paragraphs and list items.\<close>

definition heading_part :: "soup \<Rightarrow> pystr list" where
  "heading_part sp =
     map (\<lambda>t. 10 # t)
       (filter (\<lambda>t. t \<noteq> [] \<and> length t > 3)
          (map get_text_strip (find_all [py ''h1'', py ''h2'', py ''h3'', py ''h4''] sp)))"

definition paragraph_part :: "soup \<Rightarrow> pystr list" where
  "paragraph_part sp =
     filter (\<lambda>t. t \<noteq> [] \<and> length t > 30) (map get_text_strip (find_all [py ''p''] sp))"

definition bullet :: pystr where
  "bullet = [8226, 32]"

definition item_part :: "soup \<Rightarrow> pystr list" where
  "item_part sp =
     map (\<lambda>t. bullet @ t)
       (filter (\<lambda>t. t \<noteq> [] \<and> length t > 10) (map get_text_strip (find_all [py ''li''] sp)))"

text \<open>Extract text: \<open>all_text\<close> after the five steps, on the tree without the unwanted tags.\<close>

definition all_text :: "soup \<Rightarrow> pystr list" where
  "all_text sp =
     (let sp' = decompose_unwanted sp in
      title_part sp' @ meta_part sp' @ heading_part sp' @ paragraph_part sp' @ item_part sp')"

text \<open>Combine and clean text.\<close>

definition clean_text :: "soup \<Rightarrow> pystr" where
  "clean_text sp =
     replace_dot_space (join [32] (split_ws (join [10, 10] (all_text sp))))"

text \<open>Limit size.\<close>

definition truncation_marker :: pystr where
  "truncation_marker = [10, 10] @ py ''[Content truncated...]''"

definition limit_size :: "pystr \<Rightarrow> pystr" where
  "limit_size t = (if length t > 15000 then take 15000 t @ truncation_marker else t)"

text \<open>Validate content, and the result of a page that was fetched and parsed.\<close>

definition extract_document :: "soup \<Rightarrow> scrape_result" where
  "extract_document sp =
     (let website_text = limit_size (clean_text sp) in
      if website_text = [] \<or> length website_text < 200 then
        \<lparr>success = False,
         message = py ''Could not extract enough content. Try a different URL.'',
         content = []\<rparr>
      else
        \<lparr>success = True,
         message = py ''Successfully scraped! Extracted '' @ str_nat (length website_text) @
                   py '' characters.'',
         content = website_text\<rparr>)"

text \<open>
  The body of the \<open>try\<close>: the request, the status check, the parsing and the extraction.
  \<open>http_get\<close> stands for \<open>requests.get\<close> with the fixed headers and timeout, and
  \<open>html_parser\<close> for \<open>BeautifulSoup(_, 'html.parser')\<close>.
\<close>

definition scrape_try ::
  "(pystr \<Rightarrow> exn + response) \<Rightarrow> (pystr \<Rightarrow> soup) \<Rightarrow> pystr \<Rightarrow> exn + scrape_result" where
  "scrape_try http_get html_parser url =
     (case http_get (normalize_url url) of
        Inl e \<Rightarrow> Inl e
      | Inr r \<Rightarrow>
          (case raise_for_status r of
             Some e \<Rightarrow> Inl e
           | None \<Rightarrow> Inr (extract_document (html_parser (body r)))))"

text \<open>The \<open>except\<close> clauses, in the order of the source.\<close>

fun scrape_except :: "exn \<Rightarrow> scrape_result" where
  "scrape_except Timeout =
     \<lparr>success = False,
      message = py ''Request timeout. Website took too long to respond.'',
      content = []\<rparr>"
| "scrape_except ConnectionError =
     \<lparr>success = False,
      message = py ''Connection error. Check your internet or try a different URL.'',
      content = []\<rparr>"
| "scrape_except e =
     \<lparr>success = False, message = py ''Error: '' @ str_exn e, content = []\<rparr>"

text \<open>
  \<open>scrape_website(url)\<close>: the result, and the requests that were sent (the URLs, in order).
\<close>

definition scrape_website ::
  "(pystr \<Rightarrow> exn + response) \<Rightarrow> (pystr \<Rightarrow> soup) \<Rightarrow> pystr \<Rightarrow> scrape_result \<times> pystr list" where
  "scrape_website http_get html_parser url =
     ((case scrape_try http_get html_parser url of
         Inl e \<Rightarrow> scrape_except e
       | Inr res \<Rightarrow> res),
      [normalize_url url])"

section \<open>ask\_groq\<close>

text \<open>A message of the conversation: the dictionary with the keys role and content.\<close>

record chat_message =
  role :: pystr
  msg_content :: pystr

record ask_result =
  ask_success :: bool
  answer :: pystr

text \<open>
  The client's \<open>chat.completions.create\<close> with the fixed model, token bound and
  temperature, followed by the reading of \<open>choices[0].message.content\<close>: from the
  messages sent to the text of the exception raised (\<open>Inl\<close>) or the content returned
  (\<open>Inr\<close>).
\<close>

type_synonym groq_client = "chat_message list \<Rightarrow> pystr + pystr"

text \<open>\<open>sub in s\<close>\<close>

fun contains :: "pystr \<Rightarrow> pystr \<Rightarrow> bool" where
  "contains sub [] = (sub = [])"
| "contains sub (c # cs) = (prefix sub (c # cs) \<or> contains sub cs)"

text \<open>
  \<open>s.lower()\<close> on the letters A to Z; the case mapping of the characters outside ASCII
  is left out (they are kept as they are).
\<close>

definition lower :: "pystr \<Rightarrow> pystr" where
  "lower s = map (\<lambda>c. if 65 \<le> c \<and> c \<le> 90 then c + 32 else c) s"

definition system_prompt :: "pystr \<Rightarrow> pystr \<Rightarrow> pystr" where
  "system_prompt website_url website_content =
     py ''You are a helpful AI assistant answering questions about websites.'' @ [10, 10] @
     py ''WEBSITE URL: '' @ website_url @ [10, 10] @
     py ''WEBSITE CONTENT:'' @ [10] @ website_content @ [10, 10] @
     py ''INSTRUCTIONS:'' @ [10] @
     py ''- Answer using ONLY the website content above'' @ [10] @
     py ''- If info is not available, say '' @ [34] @ py ''I don'' @ [39] @
     py ''t see that information on this website'' @ [34] @ [10] @
     py ''- Be helpful, accurate, and concise'' @ [10] @
     py ''- Provide specific details from the website'' @ [10] @
     py ''- Format answers clearly with proper paragraphs'' @ [10] @
     py ''- Don'' @ [39] @ py ''t make up information''"

text \<open>Build messages, add recent chat history (\<open>chat_history[-4:]\<close>), add current question.\<close>

definition build_messages :: "pystr \<Rightarrow> pystr \<Rightarrow> pystr \<Rightarrow> chat_message list \<Rightarrow> chat_message list" where
  "build_messages website_url website_content question chat_history =
     (let messages = [\<lparr>role = py ''system'',
                        msg_content = system_prompt website_url website_content\<rparr>];
          messages = (if length chat_history > 0
                      then messages @ drop (length chat_history - 4) chat_history
                      else messages)
      in messages @ [\<lparr>role = py ''user'', msg_content = question\<rparr>])"

text \<open>The \<open>except\<close> clause: the text of the exception, or the two fixed texts.\<close>

definition ask_except :: "pystr \<Rightarrow> ask_result" where
  "ask_except error_msg =
     \<lparr>ask_success = False,
      answer = py ''Error: '' @
        (if contains (py ''authentication'') (lower error_msg)
         then py ''Invalid API key. Please check your key.''
         else if contains (py ''rate limit'') (lower error_msg)
         then py ''Rate limit exceeded. Please wait and try again.''
         else error_msg)\<rparr>"

text \<open>
  \<open>ask_groq\<close>: the result, and the requests that were sent to the provider (the
  message lists, in order). Without a client (\<open>None\<close>) the call raises before anything
  is sent.
\<close>

definition ask_groq ::
  "groq_client option \<Rightarrow> pystr \<Rightarrow> pystr \<Rightarrow> pystr \<Rightarrow> chat_message list \<Rightarrow>
     ask_result \<times> chat_message list list" where
  "ask_groq client website_url website_content question chat_history =
     (if question = [] \<or> length (strip question) = 0 then
        (\<lparr>ask_success = False, answer = py ''Please enter a valid question.''\<rparr>, [])
      else
        (let messages = build_messages website_url website_content question chat_history in
         case client of
           None \<Rightarrow>
             (ask_except ([39] @ py ''NoneType'' @ [39] @ py '' object has no attribute '' @
                          [39] @ py ''chat'' @ [39]), [])
         | Some create \<Rightarrow>
             (case create messages of
                Inl error_msg \<Rightarrow> (ask_except error_msg, [messages])
              | Inr text \<Rightarrow> (\<lparr>ask_success = True, answer = strip text\<rparr>, [messages]))))"

section \<open>test\_groq\_api\<close>

record test_result =
  test_success :: bool
  test_message :: pystr

text \<open>
  The provider's library: \<open>Groq(api_key=key)\<close> is a client, and a call of its
  \<open>chat.completions.create\<close> with the fixed model, a bound on the tokens and the
  messages gives the text of the exception raised (\<open>Inl\<close>) or the content returned
  (\<open>Inr\<close>). The trial call of \<open>test_groq_api\<close> has the bound 5; the calls of
  \<open>ask_groq\<close> have the bound 800, and the temperature 0.7 with it.
\<close>

type_synonym groq = "pystr \<Rightarrow> nat \<Rightarrow> chat_message list \<Rightarrow> pystr + pystr"

text \<open>
  \<open>test_groq_api(api_key)\<close>: the result, and the requests that were sent to the
  provider (the key of the client and the messages, in order).
\<close>

definition test_groq_api ::
  "groq \<Rightarrow> pystr \<Rightarrow> test_result \<times> (pystr \<times> chat_message list) list" where
  "test_groq_api groq api_key =
     (if api_key = [] \<or> length (strip api_key) = 0 then
        (\<lparr>test_success = False, test_message = py ''API key cannot be empty''\<rparr>, [])
      else
        (let messages = [\<lparr>role = py ''user'', msg_content = py ''test''\<rparr>] in
         case groq (strip api_key) 5 messages of
           Inl error_msg \<Rightarrow>
             (if contains (py ''authentication'') (lower error_msg) \<or>
                 contains (py ''401'') error_msg
              then \<lparr>test_success = False,
                    test_message = py ''Invalid API key. Please check and try again.''\<rparr>
              else \<lparr>test_success = False, test_message = py ''Error: '' @ error_msg\<rparr>,
              [(strip api_key, messages)])
         | Inr text \<Rightarrow>
             (\<lparr>test_success = True, test_message = py ''API key is valid! '' @ [10003]\<rparr>,
              [(strip api_key, messages)])))"

section \<open>The session state and the handlers of the buttons\<close>

record session_state =
  groq_client :: "groq_client option"
  website_scraped :: bool
  website_content :: pystr
  website_url :: pystr
  messages :: "chat_message list"
  chat_history :: "chat_message list"
  api_validated :: bool

text \<open>Initialize session state.\<close>

definition initial_state :: session_state where
  "initial_state =
     \<lparr>groq_client = None, website_scraped = False, website_content = [], website_url = [],
      messages = [], chat_history = [], api_validated = False\<rparr>"

text \<open>
  The button Validate, pressed with \<open>api_key_input\<close> in the field. The client that is
  kept is the one for the key as it was entered, and the session calls it for its
  questions.
\<close>

definition validate_button :: "groq \<Rightarrow> session_state \<Rightarrow> pystr \<Rightarrow> session_state" where
  "validate_button groq st api_key_input =
     (if api_key_input \<noteq> [] then
        (let result = fst (test_groq_api groq api_key_input) in
         if test_success result then
           st\<lparr>groq_client := Some (groq api_key_input 800), api_validated := True\<rparr>
         else st\<lparr>api_validated := False\<rparr>)
      else st)"

text \<open>The button Scrape Website, pressed with \<open>url_input\<close> in the field.\<close>

definition scrape_button ::
  "(pystr \<Rightarrow> exn + response) \<Rightarrow> (pystr \<Rightarrow> soup) \<Rightarrow> session_state \<Rightarrow> pystr \<Rightarrow> session_state" where
  "scrape_button http_get html_parser st url_input =
     (if \<not> api_validated st then st
      else if url_input = [] then st
      else
        (let result = fst (scrape_website http_get html_parser url_input) in
         if success result then
           st\<lparr>website_scraped := True, website_content := content result,
              website_url := url_input, messages := [], chat_history := []\<rparr>
         else st\<lparr>website_scraped := False\<rparr>))"

text \<open>The buttons Clear Chat and Reset All.\<close>

definition clear_chat :: "session_state \<Rightarrow> session_state" where
  "clear_chat st = st\<lparr>messages := [], chat_history := []\<rparr>"

definition reset_all :: "session_state \<Rightarrow> session_state" where
  "reset_all st = initial_state"

definition user_message :: "pystr \<Rightarrow> chat_message" where
  "user_message q = \<lparr>role = py ''user'', msg_content = q\<rparr>"

definition assistant_message :: "pystr \<Rightarrow> chat_message" where
  "assistant_message a = \<lparr>role = py ''assistant'', msg_content = a\<rparr>"

text \<open>
  The button Ask Question with \<open>question\<close> in the field. The chat is on the page only
  once the key is validated and a website is scraped.
\<close>

definition ask_button :: "session_state \<Rightarrow> pystr \<Rightarrow> session_state" where
  "ask_button st question =
     (if api_validated st \<and> website_scraped st \<and> question \<noteq> [] then
        (let st1 = st\<lparr>messages := messages st @ [user_message question]\<rparr>;
             result = fst (ask_groq (groq_client st1) (website_url st1) (website_content st1)
                             question (chat_history st1));
             st2 = st1\<lparr>messages := messages st1 @ [assistant_message (answer result)]\<rparr>
         in
           if ask_success result then
             (let st3 = st2\<lparr>chat_history := chat_history st2 @
                           [user_message question, assistant_message (answer result)]\<rparr>
              in
                if length (chat_history st3) > 8
                then st3\<lparr>chat_history := drop (length (chat_history st3) - 8) (chat_history st3)\<rparr>
                else st3)
           else st2)
      else st)"

definition quick_questions :: "pystr list" where
  "quick_questions =
     [py ''What is this website about?'',
      py ''What services are offered?'',
      py ''What are the pricing options?'',
      py ''How can I contact them?'',
      py ''What are the main features?'',
      py ''Tell me about the company'']"

text \<open>The quick question button number \<open>idx\<close> (there are six, from 0 to 5).\<close>

definition quick_button :: "session_state \<Rightarrow> nat \<Rightarrow> session_state" where
  "quick_button st idx =
     (if api_validated st \<and> website_scraped st \<and> idx < length quick_questions then
        (let q = quick_questions ! idx;
             st1 = st\<lparr>messages := messages st @ [user_message q]\<rparr>;
             result = fst (ask_groq (groq_client st1) (website_url st1) (website_content st1)
                             q (chat_history st1));
             st2 = st1\<lparr>messages := messages st1 @ [assistant_message (answer result)]\<rparr>
         in
           if ask_success result then
             st2\<lparr>chat_history := chat_history st2 @
                   [user_message q, assistant_message (answer result)]\<rparr>
           else st2)
      else st)"

text \<open>The ask operations of a session, and a session as the list of the buttons pressed.\<close>

datatype ask_op = Ask pystr | Quick nat

fun ask_step :: "session_state \<Rightarrow> ask_op \<Rightarrow> session_state" where
  "ask_step st (Ask q) = ask_button st q"
| "ask_step st (Quick idx) = quick_button st idx"

definition run_asks :: "session_state \<Rightarrow> ask_op list \<Rightarrow> session_state" where
  "run_asks st ops = foldl ask_step st ops"

section \<open>Notions of the specification and inputs for the examples\<close>

text \<open>
  Following the specification's words, a URL has a scheme when it starts with a letter,
  followed by letters, digits, plus, minus or full stop, and then by a colon and two
  slashes.
\<close>

definition has_scheme :: "pystr \<Rightarrow> bool" where
  "has_scheme url =
     (let s = takeWhile (\<lambda>c. c \<noteq> 58) url in
      s \<noteq> [] \<and> (65 \<le> hd s \<and> hd s \<le> 90 \<or> 97 \<le> hd s \<and> hd s \<le> 122) \<and>
      list_all (\<lambda>c. 65 \<le> c \<and> c \<le> 90 \<or> 97 \<le> c \<and> c \<le> 122 \<or> 48 \<le> c \<and> c \<le> 57 \<or>
                     c = 43 \<or> c = 45 \<or> c = 46) s \<and>
      startswith (drop (length s) url) (py ''://''))"

text \<open>A response with the status 200, and a server that always answers with it.\<close>

definition ok_response :: "pystr \<Rightarrow> response" where
  "ok_response url = \<lparr>status_code = 200, reason = py ''OK'', resp_url = url, body = []\<rparr>"

definition ok_get :: "pystr \<Rightarrow> exn + response" where
  "ok_get url = Inr (ok_response url)"

text \<open>A page with one paragraph of 15001 letters a, and a parser that returns it.\<close>

definition long_page :: soup where
  "long_page =
     [Elem (py ''html'') []
        [Elem (py ''body'') [] [Elem (py ''p'') [] [Text (replicate 15001 97)]]]]"

definition long_parser :: "pystr \<Rightarrow> soup" where
  "long_parser b = long_page"

text \<open>A provider that always answers ok, and a history of five exchanges.\<close>

definition ok_client :: groq_client where
  "ok_client msgs = Inr (py ''ok'')"

definition ten_entries :: "chat_message list" where
  "ten_entries =
     [user_message (py ''q1''), assistant_message (py ''a1''),
      user_message (py ''q2''), assistant_message (py ''a2''),
      user_message (py ''q3''), assistant_message (py ''a3''),
      user_message (py ''q4''), assistant_message (py ''a4''),
      user_message (py ''q5''), assistant_message (py ''a5'')]"

text \<open>A session in the middle of a conversation about an old page.\<close>

definition chatting_state :: session_state where
  "chatting_state =
     \<lparr>groq_client = Some ok_client, website_scraped = True,
      website_content = py ''The old page.'', website_url = py ''https://old.example'',
      messages = ten_entries, chat_history = ten_entries, api_validated = True\<rparr>"

text \<open>A server that never answers in time.\<close>

definition timeout_get :: "pystr \<Rightarrow> exn + response" where
  "timeout_get url = Inl Timeout"

text \<open>A provider that refuses every request, and the session that talks to it.\<close>

definition failing_client :: groq_client where
  "failing_client msgs = Inl (py ''rate limit reached'')"

definition failing_state :: session_state where
  "failing_state = chatting_state\<lparr>groq_client := Some failing_client\<rparr>"

text \<open>A provider that rejects every key.\<close>

definition rejecting_groq :: groq where
  "rejecting_groq key max_tokens msgs = Inl (py ''Error code: 401 - Invalid API Key'')"

text \<open>A session right after a page was scraped.\<close>

definition fresh_state :: session_state where
  "fresh_state =
     \<lparr>groq_client = Some ok_client, website_scraped = True,
      website_content = py ''The page.'', website_url = py ''https://example.com'',
      messages = [], chat_history = [], api_validated = True\<rparr>"

text \<open>
  Following the specification's words, the history of the model holds pairs of a user
  message and an assistant message, and at most 8 entries.
\<close>

fun alternating :: "chat_message list \<Rightarrow> bool" where
  "alternating [] = True"
| "alternating [m] = False"
| "alternating (u # a # ms) =
     (role u = py ''user'' \<and> role a = py ''assistant'' \<and> alternating ms)"

definition history_ok :: "chat_message list \<Rightarrow> bool" where
  "history_ok h \<longleftrightarrow> length h \<le> 8 \<and> alternating h"

text \<open>
  The page of the specification's example, as markup and as the tree the parser builds
  from it, with a server and a parser that return them; and the text the example is
  about.
\<close>

definition acme_page :: soup where
  "acme_page =
     [Elem (py ''html'') []
        [Elem (py ''title'') [] [Text (py ''Acme'')],
         Elem (py ''body'') []
           [Elem (py ''h1'') [] [Text (py ''Welcome to Acme'')],
            Elem (py ''p'') []
              [Text (py ''Acme provides widget manufacturing services to clients worldwide since 1990.'')]]]]"

definition acme_text :: pystr where
  "acme_text = py ''TITLE: Acme Welcome to Acme Acme provides widget manufacturing services to clients worldwide since 1990.''"

definition acme_markup :: pystr where
  "acme_markup = py ''<html><title>Acme</title><body><h1>Welcome to Acme</h1><p>Acme provides widget manufacturing services to clients worldwide since 1990.</p></body></html>''"

definition acme_get :: "pystr \<Rightarrow> exn + response" where
  "acme_get url = Inr \<lparr>status_code = 200, reason = py ''OK'', resp_url = url, body = acme_markup\<rparr>"

definition acme_parser :: "pystr \<Rightarrow> soup" where
  "acme_parser b = (if b = acme_markup then acme_page else [])"

text \<open>
  Three servers: one answers 404, one fails with another error that has the same
  text, one answers 300.
\<close>

definition not_found_get :: "pystr \<Rightarrow> exn + response" where
  "not_found_get url =
     Inr \<lparr>status_code = 404, reason = py ''Not Found'', resp_url = url, body = []\<rparr>"

definition other_error_get :: "pystr \<Rightarrow> exn + response" where
  "other_error_get url =
     Inl (OtherException (py ''404 Client Error: Not Found for url: '' @ url))"

definition multiple_choices_get :: "pystr \<Rightarrow> exn + response" where
  "multiple_choices_get url =
     Inr \<lparr>status_code = 300, reason = py ''Multiple Choices'', resp_url = url, body = []\<rparr>"

text \<open>
  Two pages that are the same outside of the unwanted tags: they differ at most in the
  attributes and in the contents of the tags named script, style, nav, footer or
  header.
\<close>

fun same_outside :: "node list \<Rightarrow> node list \<Rightarrow> bool" where
  "same_outside [] [] = True"
| "same_outside (Text s # ns) (Text s' # ms) = (s = s' \<and> same_outside ns ms)"
| "same_outside (Comment s # ns) (Comment s' # ms) = (s = s' \<and> same_outside ns ms)"
| "same_outside (Elem n a cs # ns) (Elem n' a' cs' # ms) =
     (n = n' \<and> (n \<in> set unwanted \<or> a = a' \<and> same_outside cs cs') \<and> same_outside ns ms)"
| "same_outside ns ms = False"

text \<open>
  A page with a paragraph of 300 letters, and with a text hidden in a paragraph of
  its navigation and in a script.
\<close>

definition nav_page :: "pystr \<Rightarrow> soup" where
  "nav_page hidden =
     [Elem (py ''html'') []
        [Elem (py ''body'') []
           [Elem (py ''nav'') [] [Elem (py ''p'') [] [Text hidden]],
            Elem (py ''script'') [] [Text hidden],
            Elem (py ''p'') [] [Text (replicate 300 97)]]]]"

text \<open>
  The strings of a page outside of the unwanted tags: the strings (text and comments)
  and the values of the attributes that are not inside a tag named script, style, nav,
  footer or header.
\<close>

fun visible_strings :: "node list \<Rightarrow> pystr list" where
  "visible_strings [] = []"
| "visible_strings (Text s # ns) = s # visible_strings ns"
| "visible_strings (Comment s # ns) = s # visible_strings ns"
| "visible_strings (Elem n a cs # ns) =
     (if n \<in> set unwanted then visible_strings ns
      else map snd a @ visible_strings cs @ visible_strings ns)"

text \<open>All the strings and values of the attributes of a page.\<close>

fun all_values :: "node list \<Rightarrow> pystr list" where
  "all_values [] = []"
| "all_values (Text s # ns) = s # all_values ns"
| "all_values (Comment s # ns) = s # all_values ns"
| "all_values (Elem n a cs # ns) = map snd a @ all_values cs @ all_values ns"

text \<open>The characters of the labels, separators and marker that the extraction adds.\<close>

definition fixed_text :: pystr where
  "fixed_text = py ''TITLE: '' @ py ''DESCRIPTION: '' @ bullet @ [32, 10] @ truncation_marker"

section \<open>Properties of the string functions\<close>

lemma dropWhile_none: "\<forall>c\<in>set s. \<not> P c \<Longrightarrow> dropWhile P s = s"
  by (cases s) auto

lemma strip_no_space: "\<forall>c\<in>set s. \<not> is_space c \<Longrightarrow> strip s = s"
  by (simp add: strip_def dropWhile_none)

lemma split_acc_no_space:
  "\<forall>c\<in>set s. \<not> is_space c \<Longrightarrow> split_acc w s = (if w @ s = [] then [] else [w @ s])"
  by (induction s arbitrary: w) auto

lemma split_ws_no_space: "\<forall>c\<in>set s. \<not> is_space c \<Longrightarrow> s \<noteq> [] \<Longrightarrow> split_ws s = [s]"
  by (simp add: split_ws_def split_acc_no_space)

lemma replace_dot_space_no_dot: "46 \<notin> set s \<Longrightarrow> replace_dot_space s = s"
  by (induction s rule: replace_dot_space.induct) auto

section \<open>The URL that is requested\<close>

text \<open>
  C8, as the claim states it, fails: a URL with the scheme ftp is changed, and a URL
  without a scheme that begins with the letters http is not.
\<close>

theorem normalize_url_scheme_counterexample:
  "has_scheme (py ''ftp://example.com'') \<and>
   normalize_url (py ''ftp://example.com'') = py ''https://ftp://example.com'' \<and>
   normalize_url (py ''ftp://example.com'') \<noteq> py ''ftp://example.com'' \<and>
   \<not> has_scheme (py ''httpbin.org/get'') \<and>
   normalize_url (py ''httpbin.org/get'') = py ''httpbin.org/get''"
  by (simp add: has_scheme_def normalize_url_def startswith_def py_def)

text \<open>
  C8, amended: a URL that does not start with the four characters http is requested
  with https:// put in front of it (also when it has another scheme), a URL that starts
  with http:// or with https:// is requested unchanged, and the request is sent to that
  URL.
\<close>

theorem normalize_url_http_prefix:
  "(\<not> startswith url (py ''http'') \<longrightarrow> normalize_url url = py ''https://'' @ url) \<and>
   (startswith url (py ''http://'') \<or> startswith url (py ''https://'') \<longrightarrow>
      normalize_url url = url) \<and>
   snd (scrape_website http_get html_parser url) = [normalize_url url]"
proof -
  have "startswith url (py ''http'')"
    if "startswith url (py ''http://'') \<or> startswith url (py ''https://'')"
    using that by (auto simp: startswith_def py_def prefix_def)
  then show ?thesis by (auto simp: normalize_url_def scrape_website_def)
qed

theorem normalize_url_http_prefix_witness:
  "\<not> startswith (py ''example.com'') (py ''http'') \<and>
   normalize_url (py ''example.com'') = py ''https://example.com'' \<and>
   startswith (py ''http://example.com'') (py ''http://'') \<and>
   normalize_url (py ''http://example.com'') = py ''http://example.com'' \<and>
   startswith (py ''https://example.com'') (py ''https://'') \<and>
   normalize_url (py ''https://example.com'') = py ''https://example.com''"
  using normalize_url_http_prefix [of "py ''example.com''"]
    normalize_url_http_prefix [of "py ''http://example.com''"]
    normalize_url_http_prefix [of "py ''https://example.com''"]
  by (simp add: startswith_def py_def)

section \<open>The size of the extracted text\<close>

lemma length_limit_size: "length (limit_size t) \<le> 15000 + length truncation_marker"
  by (simp add: limit_size_def)

lemma content_scrape_except: "content (scrape_except e) = []"
  by (cases e) simp_all

lemma content_extract_document:
  "content (extract_document sp) = [] \<or>
   content (extract_document sp) = limit_size (clean_text sp)"
  by (simp add: extract_document_def Let_def)

lemma content_scrape_website:
  "content (fst (scrape_website g p url)) = [] \<or>
   (\<exists>r. g (normalize_url url) = Inr r \<and>
        content (fst (scrape_website g p url)) = limit_size (clean_text (p (body r))))"
  using content_extract_document
  by (auto simp: scrape_website_def scrape_try_def content_scrape_except
      split: sum.splits option.splits)

lemma scrape_website_fetched:
  "http_get (normalize_url url) = Inr r \<Longrightarrow> raise_for_status r = None \<Longrightarrow>
   fst (scrape_website http_get html_parser url) = extract_document (html_parser (body r))"
  by (simp add: scrape_website_def scrape_try_def)

lemma extract_document_truncated:
  "length (clean_text sp) > 15000 \<Longrightarrow>
   extract_document sp =
     \<lparr>success = True,
      message = py ''Successfully scraped! Extracted '' @
                str_nat (15000 + length truncation_marker) @ py '' characters.'',
      content = take 15000 (clean_text sp) @ truncation_marker\<rparr>"
  by (simp add: extract_document_def limit_size_def Let_def truncation_marker_def py_def)

lemma raise_for_status_ok: "raise_for_status (ok_response url) = None"
  by (simp add: raise_for_status_def http_error_msg_def ok_response_def)

lemma normalize_url_example:
  "normalize_url (py ''example.com'') = py ''https://example.com''"
  by (simp add: normalize_url_def startswith_def py_def)

lemma all_text_long_page: "all_text long_page = [replicate 15001 97]"
  by (simp add: long_page_def all_text_def unwanted_def py_def title_part_def soup_title_def
      meta_part_def heading_part_def paragraph_part_def item_part_def get_text_strip_def
      strip_no_space is_space_def)

lemma clean_text_long_page: "clean_text long_page = replicate 15001 97"
  by (simp add: clean_text_def all_text_long_page split_ws_no_space is_space_def
      replace_dot_space_no_dot)

text \<open>
  C1: whatever the server answers and whatever the parser returns, the content of the
  result of \<open>scrape_website\<close> is at most 15000 characters and the truncation marker
  long; and when the page is fetched and its cleaned text is longer than 15000
  characters, the content is the first 15000 characters of the cleaned text, exactly
  15000 of them, followed by the truncation marker.
\<close>

theorem scrape_content_bounded:
  "length (content (fst (scrape_website http_get html_parser url)))
     \<le> 15000 + length truncation_marker \<and>
   (http_get (normalize_url url) = Inr r \<and> raise_for_status r = None \<and>
    length (clean_text (html_parser (body r))) > 15000 \<longrightarrow>
      content (fst (scrape_website http_get html_parser url)) =
        take 15000 (clean_text (html_parser (body r))) @ truncation_marker \<and>
      length (take 15000 (clean_text (html_parser (body r)))) = 15000)"
proof -
  have "length (content (fst (scrape_website http_get html_parser url)))
          \<le> 15000 + length truncation_marker"
    using content_scrape_website [of http_get html_parser url] length_limit_size by auto
  moreover have "content (fst (scrape_website http_get html_parser url)) =
        take 15000 (clean_text (html_parser (body r))) @ truncation_marker \<and>
      length (take 15000 (clean_text (html_parser (body r)))) = 15000"
    if "http_get (normalize_url url) = Inr r" "raise_for_status r = None"
       "length (clean_text (html_parser (body r))) > 15000"
    using that by (simp add: scrape_website_fetched extract_document_truncated)
  ultimately show ?thesis by blast
qed

theorem scrape_content_bounded_witness:
  "ok_get (normalize_url (py ''example.com'')) = Inr (ok_response (py ''https://example.com'')) \<and>
   raise_for_status (ok_response (py ''https://example.com'')) = None \<and>
   length (clean_text (long_parser (body (ok_response (py ''https://example.com''))))) > 15000 \<and>
   content (fst (scrape_website ok_get long_parser (py ''example.com''))) =
     replicate 15000 97 @ truncation_marker \<and>
   length (content (fst (scrape_website ok_get long_parser (py ''example.com'')))) = 15024"
proof -
  have g: "ok_get (normalize_url (py ''example.com'')) =
             Inr (ok_response (py ''https://example.com''))"
    by (simp add: ok_get_def normalize_url_example)
  have n: "raise_for_status (ok_response (py ''https://example.com'')) = None"
    by (rule raise_for_status_ok)
  have l: "clean_text (long_parser (body (ok_response (py ''https://example.com'')))) =
             replicate 15001 97"
    by (simp add: long_parser_def clean_text_long_page)
  have m: "length truncation_marker = 24"
    by (simp add: truncation_marker_def py_def)
  from scrape_content_bounded [of ok_get long_parser "py ''example.com''"
      "ok_response (py ''https://example.com'')"] g n l m
  show ?thesis by simp
qed

section \<open>The messages sent to the provider\<close>

lemma strip_eq_Nil: "strip q = [] \<longleftrightarrow> (\<forall>c\<in>set q. is_space c)"
proof
  assume "strip q = []"
  then have a: "\<forall>c\<in>set (dropWhile is_space q). is_space c"
    by (simp add: strip_def dropWhile_eq_Nil_conv)
  have "dropWhile is_space q = []"
  proof (rule ccontr)
    assume n: "dropWhile is_space q \<noteq> []"
    then have "\<not> is_space (hd (dropWhile is_space q))" by (rule hd_dropWhile)
    moreover have "hd (dropWhile is_space q) \<in> set (dropWhile is_space q)"
      using n by (rule hd_in_set)
    ultimately show False using a by blast
  qed
  then show "\<forall>c\<in>set q. is_space c" by (simp only: dropWhile_eq_Nil_conv)
next
  assume "\<forall>c\<in>set q. is_space c"
  then have "\<forall>c\<in>set (dropWhile is_space q). is_space c"
    by (meson set_dropWhileD)
  then show "strip q = []" by (simp add: strip_def)
qed

lemma ask_groq_sends:
  "\<not> (\<forall>c\<in>set question. is_space c) \<Longrightarrow>
   snd (ask_groq (Some create) url text question h) = [build_messages url text question h]"
  by (auto simp: ask_groq_def Let_def strip_eq_Nil split: sum.splits)

lemma build_messages_shape:
  "build_messages url text question h =
     \<lparr>role = py ''system'', msg_content = system_prompt url text\<rparr> #
     drop (length h - 4) h @ [user_message question]"
  by (simp add: build_messages_def user_message_def Let_def)

lemma drop_6_of_10: "length h = 10 \<Longrightarrow> drop 6 h = [h ! 6, h ! 7, h ! 8, h ! 9]"
proof (rule nth_equalityI)
  assume l: "length h = 10"
  show "length (drop 6 h) = length [h ! 6, h ! 7, h ! 8, h ! 9]" using l by simp
  fix i assume "i < length (drop 6 h)"
  then have "i < 4" using l by simp
  then have "i = 0 \<or> i = 1 \<or> i = 2 \<or> i = 3" by arith
  then show "drop 6 h ! i = [h ! 6, h ! 7, h ! 8, h ! 9] ! i"
    using l by auto
qed

text \<open>
  C3: for a question that is not blank, \<open>ask_groq\<close> sends one request, whose message
  list is the system message, then the entries \<open>recent\<close> of the history, then the user
  message with the question; \<open>recent\<close> is a suffix of the history (its last entries, in
  their order) of length at most 4, and for a history of 10 entries it is the entries
  number 6, 7, 8 and 9.
\<close>

theorem ask_groq_recent_history:
  "\<not> (\<forall>c\<in>set question. is_space c) \<Longrightarrow>
   (let msgs = build_messages url text question h; recent = butlast (tl msgs) in
      snd (ask_groq (Some create) url text question h) = [msgs] \<and>
      msgs = \<lparr>role = py ''system'', msg_content = system_prompt url text\<rparr> # recent @
             [\<lparr>role = py ''user'', msg_content = question\<rparr>] \<and>
      suffix recent h \<and> length recent = min 4 (length h) \<and>
      (length h = 10 \<longrightarrow> recent = [h ! 6, h ! 7, h ! 8, h ! 9]))"
proof -
  assume q: "\<not> (\<forall>c\<in>set question. is_space c)"
  have r: "butlast (tl (build_messages url text question h)) = drop (length h - 4) h"
    by (simp add: build_messages_shape butlast_append)
  have s: "snd (ask_groq (Some create) url text question h) =
             [build_messages url text question h]"
    using q by (rule ask_groq_sends)
  have l: "length (drop (length h - 4) h) = min 4 (length h)" by simp
  have t: "length h = 10 \<longrightarrow> drop (length h - 4) h = [h ! 6, h ! 7, h ! 8, h ! 9]"
    using drop_6_of_10 [of h] by simp
  show ?thesis
    unfolding Let_def r
    using s l t by (simp add: build_messages_shape user_message_def suffix_drop)
qed

theorem ask_groq_recent_history_witness:
  "\<not> (\<forall>c\<in>set (py ''hi''). is_space c) \<and> length ten_entries = 10 \<and>
   snd (ask_groq (Some ok_client) (py ''https://example.com'') (py ''text'') (py ''hi'')
          ten_entries) =
     [[\<lparr>role = py ''system'',
        msg_content = system_prompt (py ''https://example.com'') (py ''text'')\<rparr>,
       user_message (py ''q4''), assistant_message (py ''a4''),
       user_message (py ''q5''), assistant_message (py ''a5''),
       user_message (py ''hi'')]]"
proof -
  have q: "\<not> (\<forall>c\<in>set (py ''hi''). is_space c)"
    by (simp add: py_def is_space_def)
  have l: "length ten_entries = 10" by (simp add: ten_entries_def)
  have n: "ten_entries ! 6 = user_message (py ''q4'')"
    "ten_entries ! 7 = assistant_message (py ''a4'')"
    "ten_entries ! 8 = user_message (py ''q5'')"
    "ten_entries ! 9 = assistant_message (py ''a5'')"
    by (simp_all add: ten_entries_def)
  from ask_groq_recent_history [OF q, of "py ''https://example.com''" "py ''text''"
      ten_entries ok_client]
  have "snd (ask_groq (Some ok_client) (py ''https://example.com'') (py ''text'') (py ''hi'')
               ten_entries) =
      [\<lparr>role = py ''system'',
         msg_content = system_prompt (py ''https://example.com'') (py ''text'')\<rparr> #
        [ten_entries ! 6, ten_entries ! 7, ten_entries ! 8, ten_entries ! 9] @
        [\<lparr>role = py ''user'', msg_content = py ''hi''\<rparr>]]"
    unfolding Let_def using l by metis
  then show ?thesis using q l by (simp add: n user_message_def)
qed

text \<open>
  C6: for the empty question and for every question made of whitespace only,
  \<open>ask_groq\<close> returns the failure with the text asking for a valid question and sends
  nothing to the provider, whatever the client is; for the question hi it sends the
  message list it built, which for an empty history is the system message followed by
  the user message hi.
\<close>

theorem ask_groq_blank_question:
  "((\<forall>c\<in>set question. is_space c) \<longrightarrow>
      ask_groq client url text question h =
        (\<lparr>ask_success = False, answer = py ''Please enter a valid question.''\<rparr>, [])) \<and>
   snd (ask_groq (Some create) url text (py ''hi'') h) =
     [build_messages url text (py ''hi'') h] \<and>
   build_messages url text (py ''hi'') [] =
     [\<lparr>role = py ''system'', msg_content = system_prompt url text\<rparr>,
      \<lparr>role = py ''user'', msg_content = py ''hi''\<rparr>]"
proof -
  have "\<not> (\<forall>c\<in>set (py ''hi''). is_space c)"
    by (simp add: py_def is_space_def)
  then have "snd (ask_groq (Some create) url text (py ''hi'') h) =
     [build_messages url text (py ''hi'') h]"
    by (rule ask_groq_sends)
  moreover have "ask_groq client url text question h =
        (\<lparr>ask_success = False, answer = py ''Please enter a valid question.''\<rparr>, [])"
    if "\<forall>c\<in>set question. is_space c"
    using that by (simp add: ask_groq_def strip_eq_Nil)
  ultimately show ?thesis by (simp add: build_messages_def)
qed

theorem ask_groq_blank_question_witness:
  "list_all is_space (py ''   '') \<and> list_all is_space [] \<and>
   ask_groq (Some ok_client) (py ''https://example.com'') (py ''text'') (py ''   '') [] =
     (\<lparr>ask_success = False, answer = py ''Please enter a valid question.''\<rparr>, []) \<and>
   ask_groq (Some ok_client) (py ''https://example.com'') (py ''text'') [] [] =
     (\<lparr>ask_success = False, answer = py ''Please enter a valid question.''\<rparr>, [])"
  using ask_groq_blank_question [of "py ''   ''" "Some ok_client" "py ''https://example.com''"
      "py ''text''" "[]"]
    ask_groq_blank_question [of "[]" "Some ok_client" "py ''https://example.com''"
      "py ''text''" "[]"]
  by (simp add: py_def is_space_def list_all_iff)

section \<open>The session after a scrape\<close>

lemma scrape_website_success:
  "success (fst (scrape_website http_get html_parser url)) \<Longrightarrow>
   \<exists>r. http_get (normalize_url url) = Inr r \<and> raise_for_status r = None \<and>
       content (fst (scrape_website http_get html_parser url)) =
         limit_size (clean_text (html_parser (body r)))"
proof -
  have e: "\<not> success (scrape_except x)" for x by (cases x) simp_all
  assume "success (fst (scrape_website http_get html_parser url))"
  then show ?thesis
    by (auto simp: scrape_website_def scrape_try_def e extract_document_def Let_def
        split: sum.splits option.splits if_splits)
qed

text \<open>
  C10: when the button is pressed with a validated key and a URL, and the scrape
  succeeds, then both message lists of the session are empty, the content is the
  content of the result (the limited, cleaned text of the page that was fetched), the
  URL is the one that was entered and the page counts as scraped; the next request
  built from this state holds the system message about the new page and the question
  only.
\<close>

theorem scrape_success_resets_chat:
  "api_validated st \<Longrightarrow> url_input \<noteq> [] \<Longrightarrow>
   success (fst (scrape_website http_get html_parser url_input)) \<Longrightarrow>
   (let st' = scrape_button http_get html_parser st url_input in
      messages st' = [] \<and> chat_history st' = [] \<and>
      website_content st' = content (fst (scrape_website http_get html_parser url_input)) \<and>
      (\<exists>r. http_get (normalize_url url_input) = Inr r \<and>
           website_content st' = limit_size (clean_text (html_parser (body r)))) \<and>
      website_url st' = url_input \<and> website_scraped st' \<and>
      build_messages (website_url st') (website_content st') question (chat_history st') =
        [\<lparr>role = py ''system'',
          msg_content = system_prompt url_input (website_content st')\<rparr>,
         \<lparr>role = py ''user'', msg_content = question\<rparr>])"
proof -
  assume a: "api_validated st" "url_input \<noteq> []"
    and s: "success (fst (scrape_website http_get html_parser url_input))"
  from scrape_website_success [OF s] obtain r where
    r: "http_get (normalize_url url_input) = Inr r"
       "content (fst (scrape_website http_get html_parser url_input)) =
         limit_size (clean_text (html_parser (body r)))" by blast
  show ?thesis
    using a s r by (auto simp: scrape_button_def Let_def build_messages_def)
qed

lemma scrape_long_page: "fst (scrape_website ok_get long_parser (py ''example.com'')) =
   \<lparr>success = True,
      message = py ''Successfully scraped! Extracted '' @
                str_nat (15000 + length truncation_marker) @ py '' characters.'',
      content = replicate 15000 97 @ truncation_marker\<rparr>"
proof -
  have "fst (scrape_website ok_get long_parser (py ''example.com'')) = extract_document long_page"
    using scrape_website_fetched [of ok_get "py ''example.com''" "ok_response (py ''https://example.com'')" long_parser]
    by (simp add: ok_get_def normalize_url_example raise_for_status_ok long_parser_def)
  then show ?thesis
    by (simp add: extract_document_truncated clean_text_long_page)
qed

theorem scrape_success_resets_chat_witness:
  "api_validated chatting_state \<and> py ''example.com'' \<noteq> [] \<and>
   success (fst (scrape_website ok_get long_parser (py ''example.com''))) \<and>
   chat_history chatting_state = ten_entries \<and>
   messages (scrape_button ok_get long_parser chatting_state (py ''example.com'')) = [] \<and>
   chat_history (scrape_button ok_get long_parser chatting_state (py ''example.com'')) = [] \<and>
   website_content (scrape_button ok_get long_parser chatting_state (py ''example.com'')) =
     replicate 15000 97 @ truncation_marker \<and>
   website_url (scrape_button ok_get long_parser chatting_state (py ''example.com'')) =
     py ''example.com''"
proof -
  have a: "api_validated chatting_state" by (simp add: chatting_state_def)
  have u: "py ''example.com'' \<noteq> []" by (simp add: py_def)
  have s: "success (fst (scrape_website ok_get long_parser (py ''example.com'')))"
    by (simp add: scrape_long_page)
  from scrape_success_resets_chat [OF a u s] show ?thesis
    using a u s by (simp add: Let_def scrape_long_page chatting_state_def)
qed

section \<open>The session after a failure\<close>

lemma not_success_scrape_except: "\<not> success (scrape_except e)"
  by (cases e) simp_all

lemma scrape_timeout:
  "fst (scrape_website timeout_get long_parser (py ''example.com'')) = scrape_except Timeout"
  by (simp add: scrape_website_def scrape_try_def timeout_get_def)

lemma ask_groq_failing_client:
  "\<not> list_all is_space q \<Longrightarrow>
   fst (ask_groq (Some failing_client) u t q h) = ask_except (py ''rate limit reached'')"
proof -
  assume q: "\<not> list_all is_space q"
  then have "q \<noteq> []" by auto
  then show ?thesis using q
    by (auto simp: ask_groq_def strip_eq_Nil Let_def failing_client_def list_all_iff)
qed

lemma not_blank_hi: "\<not> list_all is_space (py ''hi'')"
  by (simp add: py_def is_space_def)

lemma not_blank_quick_0: "\<not> list_all is_space (quick_questions ! 0)"
  by (simp add: quick_questions_def py_def is_space_def)

lemma test_groq_api_rejecting:
  "fst (test_groq_api rejecting_groq (py ''gsk_bad'')) =
     \<lparr>test_success = False,
      test_message = py ''Invalid API key. Please check and try again.''\<rparr>"
proof -
  have s: "strip (py ''gsk_bad'') = py ''gsk_bad''"
    by (simp add: strip_def py_def is_space_def)
  have c: "contains (py ''401'') (py ''Error code: 401 - Invalid API Key'')"
    by (simp add: py_def)
  show ?thesis
    by (simp add: test_groq_api_def s rejecting_groq_def c Let_def) (simp add: py_def)
qed

lemma example_states:
  "api_validated chatting_state" "website_scraped chatting_state"
  "api_validated failing_state" "website_scraped failing_state"
  "groq_client failing_state = Some failing_client"
  "website_content chatting_state = py ''The old page.''"
  "messages chatting_state = ten_entries" "messages failing_state = ten_entries"
  "chat_history chatting_state = ten_entries" "chat_history failing_state = ten_entries"
  by (simp_all add: chatting_state_def failing_state_def)

text \<open>
  C5, as the claim states it, fails: a scrape that fails for a timeout clears the flag
  of a session that had a page; a question that the provider refuses, asked with the
  button or with a quick question, adds two entries to the messages that are
  displayed; and a validation that the provider rejects clears the flag of a session
  whose key was validated.
\<close>

theorem failed_operation_changes_state_counterexample:
  "website_scraped chatting_state \<and>
   \<not> success (fst (scrape_website timeout_get long_parser (py ''example.com''))) \<and>
   \<not> website_scraped (scrape_button timeout_get long_parser chatting_state (py ''example.com'')) \<and>
   \<not> ask_success (fst (ask_groq (groq_client failing_state) (website_url failing_state)
        (website_content failing_state) (py ''hi'') (chat_history failing_state))) \<and>
   length (messages failing_state) = 10 \<and>
   length (messages (ask_button failing_state (py ''hi''))) = 12 \<and>
   \<not> ask_success (fst (ask_groq (groq_client failing_state) (website_url failing_state)
        (website_content failing_state) (quick_questions ! 0) (chat_history failing_state))) \<and>
   length (messages (quick_button failing_state 0)) = 12 \<and>
   api_validated chatting_state \<and>
   \<not> test_success (fst (test_groq_api rejecting_groq (py ''gsk_bad''))) \<and>
   \<not> api_validated (validate_button rejecting_groq chatting_state (py ''gsk_bad''))"
proof -
  have n: "py ''example.com'' \<noteq> []" "py ''hi'' \<noteq> []" "py ''gsk_bad'' \<noteq> []"
    by (simp_all add: py_def)
  have l: "length ten_entries = 10" by (simp add: ten_entries_def)
  have q: "quick_questions \<noteq> []" by (simp add: quick_questions_def)
  have a: "\<not> website_scraped (scrape_button timeout_get long_parser chatting_state (py ''example.com''))"
    by (simp add: scrape_button_def scrape_timeout example_states n Let_def)
  have b: "length (messages (ask_button failing_state (py ''hi''))) = 12"
    by (simp add: ask_button_def example_states n Let_def ask_groq_failing_client not_blank_hi
        ask_except_def l)
  have c: "length (messages (quick_button failing_state 0)) = 12"
    using q
    by (simp add: quick_button_def example_states Let_def ask_groq_failing_client
        not_blank_quick_0 ask_except_def l)
  have d: "\<not> api_validated (validate_button rejecting_groq chatting_state (py ''gsk_bad''))"
    by (simp add: validate_button_def n test_groq_api_rejecting Let_def)
  show ?thesis
    using a b c d
    by (simp add: scrape_timeout example_states ask_groq_failing_client not_blank_hi
        not_blank_quick_0 ask_except_def test_groq_api_rejecting l)
qed

text \<open>
  C5, amended, for every operation of the session that can fail. A scrape that was
  attempted and fails leaves the content, the URL, both message lists, the validation
  flag and the client as they were and clears the scraped flag; a scrape that is
  refused, for a key that is not validated or for an empty URL, leaves the state as it
  was. An ask that fails, with the button or with a quick question, leaves everything
  as it was but the displayed messages, to which the question and the text of the
  failure are appended. A validation that fails leaves everything as it was but the
  validation flag, which it clears; a validation with an empty key leaves the state as
  it was.
\<close>

theorem failed_operation_frame:
  "(api_validated st \<and> url_input \<noteq> [] \<and>
    \<not> success (fst (scrape_website http_get html_parser url_input)) \<longrightarrow>
      (let st' = scrape_button http_get html_parser st url_input in
         website_content st' = website_content st \<and> website_url st' = website_url st \<and>
         messages st' = messages st \<and> chat_history st' = chat_history st \<and>
         api_validated st' = api_validated st \<and> groq_client st' = groq_client st \<and>
         \<not> website_scraped st')) \<and>
   (\<not> api_validated st \<or> url_input = [] \<longrightarrow>
      scrape_button http_get html_parser st url_input = st) \<and>
   (api_validated st \<and> website_scraped st \<and> question \<noteq> [] \<and>
    \<not> ask_success (fst (ask_groq (groq_client st) (website_url st) (website_content st)
                           question (chat_history st))) \<longrightarrow>
      (let st' = ask_button st question in
         website_content st' = website_content st \<and> website_url st' = website_url st \<and>
         chat_history st' = chat_history st \<and>
         api_validated st' = api_validated st \<and> groq_client st' = groq_client st \<and>
         website_scraped st' = website_scraped st \<and>
         messages st' = messages st @
           [user_message question,
            assistant_message (answer (fst (ask_groq (groq_client st) (website_url st)
               (website_content st) question (chat_history st))))])) \<and>
   (api_validated st \<and> website_scraped st \<and> idx < length quick_questions \<and>
    \<not> ask_success (fst (ask_groq (groq_client st) (website_url st) (website_content st)
                           (quick_questions ! idx) (chat_history st))) \<longrightarrow>
      (let st' = quick_button st idx in
         website_content st' = website_content st \<and> website_url st' = website_url st \<and>
         chat_history st' = chat_history st \<and>
         api_validated st' = api_validated st \<and> groq_client st' = groq_client st \<and>
         website_scraped st' = website_scraped st \<and>
         messages st' = messages st @
           [user_message (quick_questions ! idx),
            assistant_message (answer (fst (ask_groq (groq_client st) (website_url st)
               (website_content st) (quick_questions ! idx) (chat_history st))))])) \<and>
   (api_key_input \<noteq> [] \<and> \<not> test_success (fst (test_groq_api groq api_key_input)) \<longrightarrow>
      (let st' = validate_button groq st api_key_input in
         website_content st' = website_content st \<and> website_url st' = website_url st \<and>
         messages st' = messages st \<and> chat_history st' = chat_history st \<and>
         website_scraped st' = website_scraped st \<and> groq_client st' = groq_client st \<and>
         \<not> api_validated st')) \<and>
   (api_key_input = [] \<longrightarrow> validate_button groq st api_key_input = st)"
  by (simp add: scrape_button_def ask_button_def quick_button_def validate_button_def Let_def)

theorem failed_operation_frame_witness:
  "api_validated chatting_state \<and> py ''example.com'' \<noteq> [] \<and>
   \<not> success (fst (scrape_website timeout_get long_parser (py ''example.com''))) \<and>
   website_content (scrape_button timeout_get long_parser chatting_state (py ''example.com'')) =
     py ''The old page.'' \<and>
   chat_history (scrape_button timeout_get long_parser chatting_state (py ''example.com'')) =
     ten_entries \<and>
   \<not> api_validated initial_state \<and>
   scrape_button ok_get long_parser initial_state (py ''example.com'') = initial_state \<and>
   scrape_button ok_get long_parser chatting_state [] = chatting_state \<and>
   api_validated failing_state \<and> website_scraped failing_state \<and> py ''hi'' \<noteq> [] \<and>
   \<not> ask_success (fst (ask_groq (groq_client failing_state) (website_url failing_state)
        (website_content failing_state) (py ''hi'') (chat_history failing_state))) \<and>
   chat_history (ask_button failing_state (py ''hi'')) = ten_entries \<and>
   0 < length quick_questions \<and>
   \<not> ask_success (fst (ask_groq (groq_client failing_state) (website_url failing_state)
        (website_content failing_state) (quick_questions ! 0) (chat_history failing_state))) \<and>
   chat_history (quick_button failing_state 0) = ten_entries \<and>
   messages (quick_button failing_state 0) =
     ten_entries @
       [user_message (quick_questions ! 0),
        assistant_message (py ''Error: Rate limit exceeded. Please wait and try again.'')] \<and>
   py ''gsk_bad'' \<noteq> [] \<and>
   \<not> test_success (fst (test_groq_api rejecting_groq (py ''gsk_bad''))) \<and>
   chat_history (validate_button rejecting_groq chatting_state (py ''gsk_bad'')) = ten_entries \<and>
   \<not> api_validated (validate_button rejecting_groq chatting_state (py ''gsk_bad'')) \<and>
   validate_button rejecting_groq chatting_state [] = chatting_state"
proof -
  have n: "py ''example.com'' \<noteq> []" "py ''hi'' \<noteq> []" "py ''gsk_bad'' \<noteq> []"
    by (simp_all add: py_def)
  have q: "quick_questions \<noteq> []" by (simp add: quick_questions_def)
  have i: "\<not> api_validated initial_state" by (simp add: initial_state_def)
  have e: "ask_except (py ''rate limit reached'') =
     \<lparr>ask_success = False,
      answer = py ''Error: Rate limit exceeded. Please wait and try again.''\<rparr>"
    by (simp add: ask_except_def lower_def py_def)
  from failed_operation_frame [of chatting_state "py ''example.com''" timeout_get long_parser "py ''hi''" 0
      "py ''gsk_bad''" rejecting_groq]
    failed_operation_frame [of initial_state "py ''example.com''" ok_get long_parser "py ''hi''" 0
      "[]" rejecting_groq]
    failed_operation_frame [of chatting_state "[]" ok_get long_parser "py ''hi''" 0 "[]" rejecting_groq]
    failed_operation_frame [of failing_state "py ''example.com''" timeout_get long_parser "py ''hi''" 0
      "py ''gsk_bad''" rejecting_groq]
  show ?thesis
    unfolding Let_def using n q i
    by (simp add: scrape_timeout example_states ask_groq_failing_client not_blank_hi
        not_blank_quick_0 e test_groq_api_rejecting)
qed

section \<open>The size of the history of the model\<close>

lemma alternating_even: "alternating h \<Longrightarrow> even (length h)"
  by (induction h rule: alternating.induct) auto

lemma alternating_append_pair:
  "alternating h \<Longrightarrow> alternating (h @ [user_message q, assistant_message a])"
  by (induction h rule: alternating.induct) (auto simp: user_message_def assistant_message_def)

lemma alternating_drop_pair: "alternating h \<Longrightarrow> alternating (drop 2 h)"
  by (cases h rule: alternating.cases) auto

lemma history_ok_step:
  assumes "history_ok h"
  shows "history_ok
     (let h' = h @ [user_message q, assistant_message a] in
      if length h' > 8 then drop (length h' - 8) h' else h')"
proof (cases "length h = 8")
  case True
  then have "drop 2 (h @ [user_message q, assistant_message a]) =
     drop 2 h @ [user_message q, assistant_message a]" by simp
  moreover have "alternating (drop 2 h @ [user_message q, assistant_message a])"
    using assms by (simp add: history_ok_def alternating_drop_pair alternating_append_pair)
  ultimately show ?thesis using True by (simp add: history_ok_def Let_def)
next
  case False
  moreover have "even (length h)" using assms by (simp add: history_ok_def alternating_even)
  ultimately have "length h \<le> 6" using assms by (auto simp: history_ok_def elim: evenE)
  then show ?thesis using assms by (simp add: history_ok_def Let_def alternating_append_pair)
qed

lemma chat_history_ask_button:
  "chat_history (ask_button st q) =
     (if api_validated st \<and> website_scraped st \<and> q \<noteq> [] \<and>
         ask_success (fst (ask_groq (groq_client st) (website_url st) (website_content st)
                             q (chat_history st)))
      then (let h' = chat_history st @
                  [user_message q,
                   assistant_message (answer (fst (ask_groq (groq_client st) (website_url st)
                      (website_content st) q (chat_history st))))]
            in if length h' > 8 then drop (length h' - 8) h' else h')
      else chat_history st)"
  by (simp add: ask_button_def Let_def)

lemma ask_button_history_ok:
  assumes "history_ok (chat_history st)"
  shows "history_ok (chat_history (ask_button st q))"
proof (cases "api_validated st \<and> website_scraped st \<and> q \<noteq> [] \<and>
         ask_success (fst (ask_groq (groq_client st) (website_url st) (website_content st)
                             q (chat_history st)))")
  case True
  then show ?thesis
    unfolding chat_history_ask_button
    using history_ok_step [OF assms, of q "answer (fst (ask_groq (groq_client st)
      (website_url st) (website_content st) q (chat_history st)))"]
    by (simp only: simp_thms if_True)
next
  case False
  then show ?thesis
    unfolding chat_history_ask_button using assms by (simp only: simp_thms if_False)
qed

lemma ask_buttons_history_ok:
  "history_ok (chat_history st) \<Longrightarrow> history_ok (chat_history (foldl ask_button st qs))"
  by (induction qs arbitrary: st) (simp_all add: ask_button_history_ok)

lemma ask_groq_ok_client:
  "\<not> list_all is_space q \<Longrightarrow> fst (ask_groq (Some ok_client) u t q h) = \<lparr>ask_success = True, answer = py ''ok''\<rparr>"
proof -
  assume q: "\<not> list_all is_space q"
  have s: "strip (py ''ok'') = py ''ok''"
    by (simp add: strip_def py_def is_space_def)
  from q have "q \<noteq> []" by auto
  then show ?thesis using q
    by (simp add: ask_groq_def strip_eq_Nil Let_def ok_client_def list_all_iff s)
qed

lemma quick_button_ok:
  "api_validated st \<Longrightarrow> website_scraped st \<Longrightarrow> groq_client st = Some ok_client \<Longrightarrow> idx < 6 \<Longrightarrow>
   quick_button st idx = st\<lparr>messages := messages st @ [user_message (quick_questions ! idx), assistant_message (py ''ok'')],
      chat_history := chat_history st @ [user_message (quick_questions ! idx), assistant_message (py ''ok'')]\<rparr>"
proof -
  assume a: "api_validated st" "website_scraped st" "groq_client st = Some ok_client" and i: "idx < 6"
  have l: "length quick_questions = 6" by (simp add: quick_questions_def)
  have "\<forall>q\<in>set quick_questions. \<not> list_all is_space q"
    by (simp add: quick_questions_def py_def is_space_def)
  then have "\<not> list_all is_space (quick_questions ! idx)" using i l by simp
  then show ?thesis using a i l
    by (simp add: quick_button_def Let_def ask_groq_ok_client)
qed

text \<open>
  C2 at the input where the code breaks it: from a history that satisfies the
  invariant, five quick questions that are answered leave 10 entries in the history of
  the model, since the handler of the quick questions appends the pair and never cuts
  the history back to its last 8 entries.
\<close>

theorem quick_questions_exceed_cap:
  "history_ok (chat_history fresh_state) \<and>
   length (chat_history (run_asks fresh_state [Quick 0, Quick 1, Quick 2, Quick 3, Quick 4])) = 10 \<and>
   \<not> history_ok (chat_history (run_asks fresh_state [Quick 0, Quick 1, Quick 2, Quick 3, Quick 4]))"
proof -
  have "length (chat_history (run_asks fresh_state [Quick 0, Quick 1, Quick 2, Quick 3, Quick 4])) = 10"
    by (simp add: run_asks_def quick_button_ok fresh_state_def)
  then show ?thesis by (simp add: history_ok_def fresh_state_def)
qed

section \<open>The example page of the specification\<close>

lemma all_text_acme_page:
  "all_text acme_page =
     [py ''TITLE: Acme'', 10 # py ''Welcome to Acme'',
      py ''Acme provides widget manufacturing services to clients worldwide since 1990.'']"
  by (simp add: acme_page_def all_text_def unwanted_def py_def title_part_def soup_title_def
      meta_part_def heading_part_def paragraph_part_def item_part_def get_text_strip_def
      strip_def is_space_def)

lemma clean_text_acme_page: "clean_text acme_page = acme_text"
  by (simp add: clean_text_def all_text_acme_page acme_text_def split_ws_def)
     (simp add: py_def is_space_def)

text \<open>
  C9, amended: the cleaned text of the page of the example is one line of 104
  characters, without a line break, that contains the title with its label, the
  heading and the paragraph as it is written; being shorter than 200 characters, it
  fails the validation of the content and the result is the failure with an empty
  content.
\<close>

theorem acme_page_extraction:
  "clean_text acme_page = acme_text \<and> length acme_text = 104 \<and>
   contains (py ''TITLE: Acme'') acme_text \<and>
   contains (py ''Welcome to Acme'') acme_text \<and>
   contains (py ''Acme provides widget manufacturing services to clients worldwide since 1990.'') acme_text \<and>
   10 \<notin> set acme_text \<and>
   extract_document acme_page =
     \<lparr>success = False,
      message = py ''Could not extract enough content. Try a different URL.'',
      content = []\<rparr>"
proof -
  have l: "length acme_text = 104" by (simp add: acme_text_def py_def)
  have c: "contains (py ''TITLE: Acme'') acme_text \<and>
   contains (py ''Welcome to Acme'') acme_text \<and>
   contains (py ''Acme provides widget manufacturing services to clients worldwide since 1990.'') acme_text \<and>
   10 \<notin> set acme_text"
    by (simp add: acme_text_def py_def)
  have e: "extract_document acme_page =
     \<lparr>success = False,
      message = py ''Could not extract enough content. Try a different URL.'',
      content = []\<rparr>"
    by (simp add: extract_document_def clean_text_acme_page limit_size_def Let_def l)
  show ?thesis using l c e clean_text_acme_page by simp
qed

text \<open>
  C9, as the claim states it, fails: the page of the example does not pass the
  validation of the content, and \<open>scrape_website\<close> returns the failure with an
  empty content.
\<close>

theorem acme_page_fails_validation_counterexample:
  "\<not> success (extract_document acme_page) \<and>
   fst (scrape_website acme_get acme_parser (py ''https://acme.example'')) =
     \<lparr>success = False,
      message = py ''Could not extract enough content. Try a different URL.'',
      content = []\<rparr>"
proof -
  have l: "length acme_text = 104" by (simp add: acme_text_def py_def)
  have e: "extract_document acme_page =
     \<lparr>success = False,
      message = py ''Could not extract enough content. Try a different URL.'',
      content = []\<rparr>"
    by (simp add: extract_document_def clean_text_acme_page limit_size_def Let_def l)
  have u: "normalize_url (py ''https://acme.example'') = py ''https://acme.example''"
    by (simp add: normalize_url_def startswith_def py_def)
  have "fst (scrape_website acme_get acme_parser (py ''https://acme.example'')) =
     extract_document acme_page"
    by (simp add: scrape_website_def scrape_try_def u acme_get_def raise_for_status_def
        http_error_msg_def acme_parser_def)
  then show ?thesis using e by simp
qed

section \<open>The responses with an error status\<close>

lemma str_nat_404: "str_nat 404 = py ''404''"
  by (simp add: str_nat.simps py_def)

lemma str_nat_not_Nil: "str_nat n \<noteq> []"
  by (subst str_nat.simps) simp

lemma http_error_msg_Nil:
  "http_error_msg r = [] \<longleftrightarrow> \<not> (400 \<le> status_code r \<and> status_code r < 600)"
  by (auto simp: http_error_msg_def str_nat_not_Nil)

text \<open>
  C7, as the claim states it, fails: the result for a response with the status 404 is
  the result for any other error with the same text, and a response with the status
  300, which is not a 2xx status, is not a failure of the fetch (the scrape succeeds).
\<close>

theorem http_error_not_distinct_counterexample:
  "fst (scrape_website not_found_get long_parser (py ''example.com'')) =
     fst (scrape_website other_error_get long_parser (py ''example.com'')) \<and>
   success (fst (scrape_website multiple_choices_get long_parser (py ''example.com'')))"
proof -
  have a: "fst (scrape_website not_found_get long_parser (py ''example.com'')) =
     scrape_except (HTTPError (py ''404 Client Error: Not Found for url: https://example.com''))"
    by (simp add: scrape_website_def scrape_try_def normalize_url_example not_found_get_def
        raise_for_status_def http_error_msg_def str_nat_404) (simp add: py_def)
  have b: "fst (scrape_website other_error_get long_parser (py ''example.com'')) =
     scrape_except (OtherException (py ''404 Client Error: Not Found for url: https://example.com''))"
    by (simp add: scrape_website_def scrape_try_def normalize_url_example other_error_get_def)
       (simp add: py_def)
  have c: "fst (scrape_website multiple_choices_get long_parser (py ''example.com'')) =
     extract_document long_page"
    by (simp add: scrape_website_def scrape_try_def normalize_url_example multiple_choices_get_def
        raise_for_status_def http_error_msg_def long_parser_def)
  show ?thesis
    by (simp add: a b c extract_document_truncated clean_text_long_page)
qed

text \<open>
  C7, amended: when the server answers with a status from 400 to 599, the result is
  the failure whose message is Error: followed by the text of the HTTP error; it is
  the result of any other exception with that text, and it differs from the results
  for a timeout and for a connection error. When the server answers with any other
  status, the fetch does not fail and the result is that of the extraction. In every
  case one request is sent.
\<close>

theorem http_error_generic_failure:
  "http_get (normalize_url url) = Inr r \<Longrightarrow>
   (400 \<le> status_code r \<and> status_code r < 600 \<longrightarrow>
      fst (scrape_website http_get html_parser url) =
        \<lparr>success = False, message = py ''Error: '' @ http_error_msg r, content = []\<rparr> \<and>
      fst (scrape_website http_get html_parser url) =
        scrape_except (OtherException (http_error_msg r)) \<and>
      fst (scrape_website http_get html_parser url) \<noteq> scrape_except Timeout \<and>
      fst (scrape_website http_get html_parser url) \<noteq> scrape_except ConnectionError) \<and>
   (\<not> (400 \<le> status_code r \<and> status_code r < 600) \<longrightarrow>
      fst (scrape_website http_get html_parser url) = extract_document (html_parser (body r))) \<and>
   snd (scrape_website http_get html_parser url) = [normalize_url url]"
proof -
  assume g: "http_get (normalize_url url) = Inr r"
  have d: "py ''Error: '' @ m \<noteq> py ''Request timeout. Website took too long to respond.''"
    "py ''Error: '' @ m \<noteq> py ''Connection error. Check your internet or try a different URL.''"
    for m by (simp_all add: py_def)
  show ?thesis
    using g by (auto simp: scrape_website_def scrape_try_def raise_for_status_def
        http_error_msg_Nil d)
qed

theorem http_error_generic_failure_witness:
  "not_found_get (normalize_url (py ''example.com'')) =
     Inr \<lparr>status_code = 404, reason = py ''Not Found'', resp_url = py ''https://example.com'', body = []\<rparr> \<and>
   fst (scrape_website not_found_get long_parser (py ''example.com'')) =
     \<lparr>success = False,
      message = py ''Error: 404 Client Error: Not Found for url: https://example.com'',
      content = []\<rparr> \<and>
   multiple_choices_get (normalize_url (py ''example.com'')) =
     Inr \<lparr>status_code = 300, reason = py ''Multiple Choices'', resp_url = py ''https://example.com'', body = []\<rparr> \<and>
   fst (scrape_website multiple_choices_get long_parser (py ''example.com'')) =
     extract_document long_page \<and>
   snd (scrape_website not_found_get long_parser (py ''example.com'')) = [py ''https://example.com'']"
proof -
  have a: "not_found_get (normalize_url (py ''example.com'')) =
     Inr \<lparr>status_code = 404, reason = py ''Not Found'', resp_url = py ''https://example.com'', body = []\<rparr>"
    by (simp add: not_found_get_def normalize_url_example)
  have b: "multiple_choices_get (normalize_url (py ''example.com'')) =
     Inr \<lparr>status_code = 300, reason = py ''Multiple Choices'', resp_url = py ''https://example.com'', body = []\<rparr>"
    by (simp add: multiple_choices_get_def normalize_url_example)
  have m: "http_error_msg \<lparr>status_code = 404, reason = py ''Not Found'', resp_url = py ''https://example.com'', body = []\<rparr>
      = py ''404 Client Error: Not Found for url: https://example.com''"
    by (simp add: http_error_msg_def str_nat_404) (simp add: py_def)
  show ?thesis
    using http_error_generic_failure [where http_get = not_found_get and url = "py ''example.com''"
        and html_parser = long_parser, OF a]
      http_error_generic_failure [where http_get = multiple_choices_get and url = "py ''example.com''"
        and html_parser = long_parser, OF b] a b
    by (simp add: m long_parser_def normalize_url_example) (simp add: py_def)
qed

section \<open>The unwanted tags\<close>

lemma decompose_same_outside:
  "same_outside sp sp' \<Longrightarrow> decompose_unwanted sp = decompose_unwanted sp'"
  by (induction sp sp' rule: same_outside.induct) auto

lemma set_strip: "set (strip s) \<subseteq> set s"
proof -
  have "set (strip s) \<subseteq> set (dropWhile is_space s)"
    unfolding strip_def set_rev using set_dropWhileD [of _ is_space "rev (dropWhile is_space s)"]
    by auto
  then show ?thesis using set_dropWhileD [of _ is_space s] by auto
qed

lemma set_join: "set (join sep xs) \<subseteq> set sep \<union> set (concat xs)"
  by (induction sep xs rule: join.induct) auto

lemma set_split_acc: "set (concat (split_acc w s)) \<subseteq> set w \<union> set s"
proof (induction s arbitrary: w)
  case Nil
  then show ?case by simp
next
  case (Cons c cs)
  have a: "set (concat (split_acc [] cs)) \<subseteq> set cs" using Cons [of "[]"] by simp
  have b: "set (concat (split_acc (w @ [c]) cs)) \<subseteq> set w \<union> insert c (set cs)"
    using Cons [of "w @ [c]"] by auto
  show ?case
  proof (cases "is_space c")
    case True
    then show ?thesis using a by (cases "w = []") auto
  next
    case False
    then show ?thesis using b by auto
  qed
qed

lemma set_replace_dot_space: "set (replace_dot_space s) \<subseteq> insert 10 (set s)"
  by (induction s rule: replace_dot_space.induct) auto

lemma set_limit_size: "set (limit_size t) \<subseteq> set t \<union> set truncation_marker"
  using set_take_subset [of 15000 t] by (auto simp: limit_size_def)

lemma all_values_append: "all_values (xs @ ys) = all_values xs @ all_values ys"
  by (induction xs rule: all_values.induct) auto

lemma all_values_decompose: "all_values (decompose_unwanted sp) = visible_strings sp"
  by (induction sp rule: decompose_unwanted.induct) auto

lemma all_values_Cons: "set (all_values (x # xs)) = set (all_values [x]) \<union> set (all_values xs)"
  using all_values_append [of "[x]" xs] by simp

lemma find_all_values:
  "e \<in> set (find_all names sp) \<Longrightarrow> set (all_values [e]) \<subseteq> set (all_values sp)"
  by (induction names sp rule: find_all.induct) (auto split: if_splits)

lemma strings_values: "set (strings e) \<subseteq> set (all_values [e])"
proof (induction e rule: strings.induct)
  case (1 s)
  then show ?case by simp
next
  case (2 s)
  then show ?case by simp
next
  case (3 n a cs)
  have "set (concat (map strings cs)) \<subseteq> set (all_values cs)"
    using 3
  proof (induction cs)
    case Nil
    then show ?case by simp
  next
    case (Cons c cs)
    then show ?case using all_values_Cons [of c cs] by auto
  qed
  then show ?case by auto
qed

lemma tag_string_values: "tag_string e = Some s \<Longrightarrow> s \<in> set (all_values [e])"
  by (induction e rule: tag_string.induct) auto

lemma tag_get_values: "tag_get e k = Some v \<Longrightarrow> v \<in> set (all_values [e])"
  by (cases e) (auto dest!: map_of_SomeD intro: rev_image_eqI)

lemma set_get_text_strip: "set (get_text_strip e) \<subseteq> set (concat (all_values [e]))"
  using strings_values [of e] set_strip by (fastforce simp: get_text_strip_def)

lemma fixed_text_chars:
  "set (py ''TITLE: '') \<subseteq> set fixed_text" "set (py ''DESCRIPTION: '') \<subseteq> set fixed_text"
  "set bullet \<subseteq> set fixed_text" "32 \<in> set fixed_text" "10 \<in> set fixed_text"
  "set truncation_marker \<subseteq> set fixed_text"
  by (auto simp: fixed_text_def)

lemma found_values:
  assumes "e \<in> set (find_all names sp)" and "v \<in> set (all_values [e])"
  shows "set v \<subseteq> set (concat (all_values sp))"
  using find_all_values [OF assms(1)] assms(2) by auto

lemma found_text:
  assumes "e \<in> set (find_all names sp)"
  shows "set (get_text_strip e) \<subseteq> set (concat (all_values sp))"
  using set_get_text_strip [of e] find_all_values [OF assms] by auto

lemma title_part_chars:
  "set (concat (title_part sp)) \<subseteq> set fixed_text \<union> set (concat (all_values sp))"
proof (cases "soup_title sp")
  case None
  then show ?thesis by (simp add: title_part_def)
next
  case (Some t)
  then have t: "t \<in> set (find_all [py ''title''] sp)"
    by (auto simp: soup_title_def split: list.splits)
  show ?thesis
  proof (cases "tag_string t")
    case None
    then show ?thesis using Some by (simp add: title_part_def)
  next
    case (Some s)
    then have "s \<in> set (all_values [t])"
      by (rule tag_string_values)
    then have "set s \<subseteq> set (concat (all_values sp))" using found_values [OF t] by blast
    then have "set (strip s) \<subseteq> set (concat (all_values sp))" using set_strip by blast
    then show ?thesis
      using \<open>soup_title sp = Some t\<close> Some fixed_text_chars(1)
      by (auto simp: title_part_def)
  qed
qed

lemma meta_loop_chars:
  "set ms \<subseteq> set (find_all names sp) \<Longrightarrow>
   set (concat (meta_loop ms)) \<subseteq> set fixed_text \<union> set (concat (all_values sp))"
proof (induction ms)
  case Nil
  then show ?case by simp
next
  case (Cons m ms)
  then have ih: "set (concat (meta_loop ms)) \<subseteq> set fixed_text \<union> set (concat (all_values sp))"
    and m: "m \<in> set (find_all names sp)" by auto
  have "set (strip c) \<subseteq> set (concat (all_values sp))" if "tag_get m (py ''content'') = Some c" for c
    using found_values [OF m tag_get_values [OF that]] set_strip by blast
  then show ?case using ih fixed_text_chars(2)
    by (auto split: option.splits)
qed

lemma meta_part_chars:
  "set (concat (meta_part sp)) \<subseteq> set fixed_text \<union> set (concat (all_values sp))"
  unfolding meta_part_def by (rule meta_loop_chars [where names = "[py ''meta'']"]) simp

lemma found_part_chars:
  assumes f: "\<And>t. set (f t) \<subseteq> set fixed_text \<union> set t"
  shows "set (concat (map f (filter P (map get_text_strip (find_all names sp)))))
           \<subseteq> set fixed_text \<union> set (concat (all_values sp))"
proof
  fix x
  assume "x \<in> set (concat (map f (filter P (map get_text_strip (find_all names sp)))))"
  then obtain e where e: "e \<in> set (find_all names sp)" and x: "x \<in> set (f (get_text_strip e))"
    by auto
  from x f have "x \<in> set fixed_text \<or> x \<in> set (get_text_strip e)" by blast
  then show "x \<in> set fixed_text \<union> set (concat (all_values sp))"
    using found_text [OF e] by blast
qed

lemma heading_part_chars:
  "set (concat (heading_part sp)) \<subseteq> set fixed_text \<union> set (concat (all_values sp))"
  unfolding heading_part_def using fixed_text_chars(5) by (intro found_part_chars) auto

lemma paragraph_part_chars:
  "set (concat (paragraph_part sp)) \<subseteq> set fixed_text \<union> set (concat (all_values sp))"
  using found_part_chars [of "\<lambda>t. t" _ "[py ''p'']" sp] by (simp add: paragraph_part_def)

lemma item_part_chars:
  "set (concat (item_part sp)) \<subseteq> set fixed_text \<union> set (concat (all_values sp))"
  unfolding item_part_def using fixed_text_chars(3) by (intro found_part_chars) auto

lemma all_text_chars:
  "set (concat (all_text sp)) \<subseteq> set fixed_text \<union> set (concat (visible_strings sp))"
  using title_part_chars [of "decompose_unwanted sp"] meta_part_chars [of "decompose_unwanted sp"]
    heading_part_chars [of "decompose_unwanted sp"] paragraph_part_chars [of "decompose_unwanted sp"]
    item_part_chars [of "decompose_unwanted sp"]
  by (simp add: all_text_def Let_def all_values_decompose)

lemma clean_text_chars:
  "set (clean_text sp) \<subseteq> set fixed_text \<union> set (concat (visible_strings sp))"
proof -
  define A where "A = set fixed_text \<union> set (concat (visible_strings sp))"
  define t1 where "t1 = join [10, 10] (all_text sp)"
  define t2 where "t2 = split_ws t1"
  define t3 where "t3 = join [32] t2"
  have n: "set [10, 10] \<subseteq> A" "set [32] \<subseteq> A" "insert 10 A \<subseteq> A"
    using fixed_text_chars(4,5) by (auto simp: A_def)
  have "set (concat (all_text sp)) \<subseteq> A" unfolding A_def by (rule all_text_chars)
  moreover have "set t1 \<subseteq> set [10, 10] \<union> set (concat (all_text sp))"
    unfolding t1_def by (rule set_join)
  ultimately have 1: "set t1 \<subseteq> A" using n(1) by blast
  have "set (concat t2) \<subseteq> set [] \<union> set t1"
    unfolding t2_def split_ws_def by (rule set_split_acc)
  then have 2: "set (concat t2) \<subseteq> A" using 1 by auto
  have "set t3 \<subseteq> set [32] \<union> set (concat t2)" unfolding t3_def by (rule set_join)
  then have 3: "set t3 \<subseteq> A" using 2 n(2) by blast
  have "set (replace_dot_space t3) \<subseteq> insert 10 (set t3)" by (rule set_replace_dot_space)
  then have "set (replace_dot_space t3) \<subseteq> A" using 3 n(3) by blast
  then show ?thesis by (simp add: clean_text_def t3_def t2_def t1_def A_def)
qed

lemma content_chars:
  "set (content (extract_document sp)) \<subseteq> set fixed_text \<union> set (concat (visible_strings sp))"
proof -
  have "set (limit_size (clean_text sp)) \<subseteq> set (clean_text sp) \<union> set truncation_marker"
    by (rule set_limit_size)
  then have "set (limit_size (clean_text sp)) \<subseteq> set fixed_text \<union> set (concat (visible_strings sp))"
    using clean_text_chars [of sp] fixed_text_chars(6) by blast
  then show ?thesis using content_extract_document [of sp] by auto
qed

text \<open>
  C4: the extracted text does not depend on what is inside the tags named script,
  style, nav, footer or header: two pages that are the same outside of these tags
  give the same fragments and the same result. And every character of the extracted
  content comes from a string or an attribute value outside of these tags, or is a
  character of the labels, separators and marker that the extraction adds.
\<close>

theorem unwanted_content_not_extracted:
  "(same_outside sp sp' \<longrightarrow>
      all_text sp = all_text sp' \<and> extract_document sp = extract_document sp') \<and>
   set (content (extract_document sp))
     \<subseteq> set fixed_text \<union> set (concat (visible_strings sp))"
proof -
  have "all_text sp = all_text sp' \<and> extract_document sp = extract_document sp'"
    if "same_outside sp sp'"
  proof -
    from that have "all_text sp = all_text sp'"
      by (simp add: all_text_def decompose_same_outside)
    then show ?thesis by (simp add: extract_document_def clean_text_def)
  qed
  then show ?thesis using content_chars [of sp] by blast
qed

lemma all_text_nav_page: "all_text (nav_page hidden) = [replicate 300 97]"
  by (simp add: nav_page_def all_text_def unwanted_def py_def title_part_def soup_title_def
      meta_part_def heading_part_def paragraph_part_def item_part_def get_text_strip_def
      strip_no_space is_space_def)

theorem unwanted_content_not_extracted_witness:
  "same_outside (nav_page (replicate 40 98)) (nav_page (replicate 50 122)) \<and>
   nav_page (replicate 40 98) \<noteq> nav_page (replicate 50 122) \<and>
   extract_document (nav_page (replicate 40 98)) =
     extract_document (nav_page (replicate 50 122)) \<and>
   success (extract_document (nav_page (replicate 40 98))) \<and>
   98 \<notin> set (content (extract_document (nav_page (replicate 40 98))))"
proof -
  have s: "same_outside (nav_page (replicate 40 98)) (nav_page (replicate 50 122))"
    by (simp add: nav_page_def unwanted_def py_def)
  have n: "nav_page (replicate 40 98) \<noteq> nav_page (replicate 50 122)"
    by (simp add: nav_page_def replicate_eq_replicate)
  have c: "clean_text (nav_page hidden) = replicate 300 97" for hidden
    by (simp add: clean_text_def all_text_nav_page split_ws_no_space is_space_def
        replace_dot_space_no_dot)
  have e: "success (extract_document (nav_page (replicate 40 98)))"
    by (simp add: extract_document_def c limit_size_def Let_def)
  have v: "visible_strings (nav_page hidden) = [replicate 300 97]" for hidden
    by (simp add: nav_page_def unwanted_def py_def)
  have f: "98 \<notin> set fixed_text"
    by (simp add: fixed_text_def truncation_marker_def bullet_def py_def)
  from unwanted_content_not_extracted [of "nav_page (replicate 40 98)" "nav_page (replicate 50 122)"]
  show ?thesis using s n e f by (auto simp: v)
qed

end
